theory Spec2Isabelle
  imports Main
begin

section \<open>The installer build script \<^verbatim>\<open>build.py\<close>\<close>

text \<open>
  The script is glue code: it asks the interpreter and the file system a few questions
  and then writes a stamp file, deletes a directory, copies packages and runs external
  commands. The embedding keeps both sides apart.

  \<^item> What the script reads is a field of the record \<open>env\<close>: the interpreter's version
    and platform, the short hash that \<^verbatim>\<open>config.git_shorthash_from_head\<close> returns, the
    answers of \<^verbatim>\<open>os.path.isdir\<close>, \<^verbatim>\<open>os.listdir\<close>, \<^verbatim>\<open>tempfile.gettempdir\<close> and
    \<^verbatim>\<open>os.path.join\<close>, the decoded text of a file, the files that exist, the exit
    status that \<^verbatim>\<open>os.system\<close> reports for a command line, and the binding of the
    global name \<^verbatim>\<open>SDKPATH\<close>.
  \<^item> What the script does to the outside is a list of \<open>action\<close>s, in program order.
    An action records a call that was made with these arguments and came back.
    \<^verbatim>\<open>shutil.copyfile\<close> fails when its source does not exist and when it is asked to
    copy a file onto itself; any other refusal of the operating system (permissions, a
    full disk) is not part of the model.
  \<^item> What the script raises is a value of \<open>exn\<close> on the left of a sum. A function
    that fails returns the actions performed before the failure.

  A Python \<^verbatim>\<open>str\<close> is a \<open>string\<close>; each \<open>char\<close> stands for the code point of the
  same number, so the texts covered are those over the code points 0 to 255.
\<close>

subsection \<open>Exceptions and effects\<close>

datatype exn =
    SystemExit string
  | AssertionError string
  | AttributeError string
  | ValueError string
  | IndexError
  | FileNotFoundError string
  | NameError string
  | SameFileError string string

text \<open>
  The status with which the interpreter ends when the exception reaches the top level.
  \<^verbatim>\<open>sys.exit\<close> is only ever called with a message string here: the interpreter prints the
  message on the error stream and ends with status 1, as it does (after a traceback) for
  every other uncaught exception.
\<close>

fun exit_status :: "exn \<Rightarrow> int" where
  "exit_status (SystemExit msg) = 1"
| "exit_status _ = 1"

datatype action =
    Write string string
  | Print string
  | Rmtree string
  | Copyfile string string
  | System string int

text \<open>
  \<open>Write p t\<close>: \<^verbatim>\<open>open(p, "w+", encoding="utf-8")\<close> followed by \<^verbatim>\<open>write(t)\<close>; the mode
  truncates, so \<open>t\<close> is the whole content. \<open>Copyfile src dst\<close>: \<^verbatim>\<open>shutil.copyfile\<close>
  copied \<open>src\<close> to \<open>dst\<close>.
  \<open>System cmd st\<close>: \<^verbatim>\<open>os.system(cmd)\<close> returned \<open>st\<close>.
\<close>

record env =
  sys_version_info :: "int \<times> int \<times> int \<times> string \<times> int"
  sys_version :: string
  sys_platform :: string
  git_shorthash_from_head :: "string option"
  isdir :: "string \<Rightarrow> bool"
  listdir :: "string \<Rightarrow> string list option"
  file_text :: "string \<Rightarrow> string option"
  gettempdir :: string
  join :: "string \<Rightarrow> string \<Rightarrow> string"
  os_system :: "string \<Rightarrow> int"
  file_id :: "string \<Rightarrow> string"
  files :: "string set"
  sdkpath :: "string option"

text \<open>
  \<open>listdir e d = None\<close> and \<open>file_text e p = None\<close> stand for a directory or a file
  that does not exist: the calls raise \<^verbatim>\<open>FileNotFoundError\<close>.

  \<open>file_id e p\<close> is the file that the path \<open>p\<close> names: two paths name the same file
  exactly when \<open>file_id e\<close> agrees on them. \<open>files e\<close> are the files that exist when
  the function is called, each given by its \<open>file_id\<close>.

  \<open>sdkpath e\<close> is the binding of the global name \<^verbatim>\<open>SDKPATH\<close> in the module when the
  function is called, \<open>None\<close> when the name is unbound. The only assignment to the name
  is at line 127, inside the block under \<^verbatim>\<open>if __name__ == "__main__":\<close>. That block makes
  no call of \<^verbatim>\<open>windows_installer_display_lang\<close>, and in a module that was imported it
  does not run: there the name is unbound unless the caller binds it.
\<close>

subsection \<open>\<^verbatim>\<open>system_check\<close>\<close>

text \<open>
  \<^verbatim>\<open>sys.version_info < (3, 11)\<close> compares tuples lexicographically. The right-hand side
  has two components, so only the major and the minor version are compared; a version
  tuple that agrees with \<open>(3, 11)\<close> on both is the longer one and is not smaller.
\<close>

definition version_info_lt :: "int \<times> int \<times> int \<times> string \<times> int \<Rightarrow> int \<times> int \<Rightarrow> bool" where
  "version_info_lt v w =
     (case v of (major, minor, rest) \<Rightarrow>
        (case w of (a, b) \<Rightarrow> major < a \<or> (major = a \<and> minor < b)))"

definition system_check :: "env \<Rightarrow> string \<Rightarrow> (exn + string) \<times> action list" where
  "system_check e dist_dir =
     (if version_info_lt (sys_version_info e) (3, 11)
      then (Inl (SystemExit (''Unexpected Python version '' @ sys_version e)), [])
      else if sys_platform e \<noteq> ''win32''
      then (Inl (SystemExit (''Unsupported platform '' @ sys_platform e)), [])
      else
        (case git_shorthash_from_head e of
           None \<Rightarrow> (Inl (SystemExit ''Invalid Git Hash''), [])
         | Some git_shorthash \<Rightarrow>
             (let gitversion_file = ''.gitversion'';
                  stamp = [Write gitversion_file git_shorthash,
                           Print (''Git short hash: '' @ git_shorthash)];
                  cleanup = (if dist_dir \<noteq> [] \<and> length dist_dir > 1 \<and> isdir e dist_dir
                             then [Rmtree dist_dir] else [])
              in (Inr gitversion_file, stamp @ cleanup))))"

subsection \<open>\<^verbatim>\<open>generate_data_files\<close>\<close>

text \<open>\<^verbatim>\<open>x.endswith(suffix)\<close>.\<close>

definition endswith :: "string \<Rightarrow> string \<Rightarrow> bool" where
  "endswith x suffix =
     (length suffix \<le> length x \<and> drop (length x - length suffix) x = suffix)"

text \<open>The module-level list \<^verbatim>\<open>PLUGINS\<close>, assigned before the function is called.\<close>

definition PLUGINS :: "string list" where
  "PLUGINS = [''plugins/coriolis.py'', ''plugins/eddn.py'', ''plugins/edsm.py'',
              ''plugins/edsy.py'', ''plugins/inara.py'']"

definition generate_data_files ::
    "env \<Rightarrow> string \<Rightarrow> string \<Rightarrow> exn + (string \<times> string list) list" where
  "generate_data_files e app_name gitversion_file =
     (let l10n_dir = ''L10n'';
          fdevids_dir = ''FDevIDs''
      in case listdir e l10n_dir of
           None \<Rightarrow> Inl (FileNotFoundError l10n_dir)
         | Some names \<Rightarrow>
             Inr [ ([],
                    [ gitversion_file,
                      ''WinSparkle.dll'',
                      ''WinSparkle.pdb'',
                      ''EUROCAPS.TTF'',
                      ''ChangeLog.md'',
                      ''snd_good.wav'',
                      ''snd_bad.wav'',
                      ''modules.p'',
                      ''ships.p'',
                      app_name @ ''.VisualElementsManifest.xml'',
                      app_name @ ''.ico'',
                      ''EDMarketConnector - TRACE.bat'',
                      ''EDMarketConnector - localserver-auth.bat'',
                      ''EDMarketConnector - reset-ui.bat'' ]),
                   (l10n_dir,
                    [join e l10n_dir x. x \<leftarrow> names, endswith x ''.strings'']),
                   (fdevids_dir,
                    [ join e fdevids_dir ''commodity.csv'',
                      join e fdevids_dir ''rare_commodity.csv'' ]),
                   (''plugins'', PLUGINS) ])"

subsection \<open>Characters and numerals\<close>

definition bs :: char where
  "bs = CHR 0x5C"

definition dq :: char where
  "dq = CHR 0x22"

definition newline :: char where
  "newline = CHR 0x0A"

text \<open>
  The characters that \<^verbatim>\<open>\s\<close> matches in a \<^verbatim>\<open>str\<close> pattern (those for which
  \<^verbatim>\<open>str.isspace\<close> holds), among the code points 0 to 255.
\<close>

definition re_space :: "char \<Rightarrow> bool" where
  "re_space c = (of_char c \<in> {9, 10, 11, 12, 13, 28, 29, 30, 31, 32, 133, 160 :: nat})"

text \<open>
  The characters that \<^verbatim>\<open>int\<close> skips around a numeral. The separators 28 to 31 are not
  among them: \<^verbatim>\<open>int("\x1c1")\<close> raises.
\<close>

definition int_space :: "char \<Rightarrow> bool" where
  "int_space c = (of_char c \<in> {9, 10, 11, 12, 13, 32, 133, 160 :: nat})"

definition is_digit :: "char \<Rightarrow> bool" where
  "is_digit c = (48 \<le> (of_char c :: nat) \<and> (of_char c :: nat) \<le> 57)"

definition digit_val :: "char \<Rightarrow> nat" where
  "digit_val c = of_char c - 48"

definition digit_char :: "nat \<Rightarrow> char" where
  "digit_char d = char_of (48 + d)"

text \<open>\<^verbatim>\<open>str(n)\<close> and the \<^verbatim>\<open>{n}\<close> of an f-string, for an integer.\<close>

fun str_nat :: "nat \<Rightarrow> string" where
  "str_nat n = (if n < 10 then [digit_char n] else str_nat (n div 10) @ [digit_char (n mod 10)])"

declare str_nat.simps [simp del]

definition str_int :: "int \<Rightarrow> string" where
  "str_int i = (if i < 0 then CHR ''-'' # str_nat (nat (- i)) else str_nat (nat i))"

text \<open>
  The digits of a numeral body: one or more decimal digits, with single underscores
  allowed between two digits and nowhere else.
\<close>

fun digit_group :: "string \<Rightarrow> string option" where
  "digit_group [] = None"
| "digit_group (c # cs) =
     (if \<not> is_digit c then None
      else (case cs of
              [] \<Rightarrow> Some [c]
            | d # ds \<Rightarrow>
                (case digit_group (if d = CHR ''_'' then ds else d # ds) of
                   None \<Rightarrow> None
                 | Some r \<Rightarrow> Some (c # r))))"

definition dec_value :: "string \<Rightarrow> nat" where
  "dec_value ds = foldl (\<lambda>a c. 10 * a + digit_val c) 0 ds"

text \<open>
  The default of \<^verbatim>\<open>sys.get_int_max_str_digits()\<close> (Python 3.11 and later): a numeral with
  more digits is refused.
\<close>

definition int_max_str_digits :: nat where
  "int_max_str_digits = 4300"

definition strip_int :: "string \<Rightarrow> string" where
  "strip_int x = rev (dropWhile int_space (rev (dropWhile int_space x)))"

text \<open>
  \<^verbatim>\<open>int(x)\<close> for a string: surrounding whitespace is skipped, an optional sign follows,
  then the digits. Anything else raises \<^verbatim>\<open>ValueError\<close>.
\<close>

definition py_int :: "string \<Rightarrow> exn + int" where
  "py_int x =
     (let s = strip_int x;
          negative = (case s of [] \<Rightarrow> False | c # cs \<Rightarrow> c = CHR ''-'');
          body = (case s of [] \<Rightarrow> [] | c # cs \<Rightarrow> if c = CHR ''-'' \<or> c = CHR ''+'' then cs else s)
      in case digit_group body of
           None \<Rightarrow> Inl (ValueError x)
         | Some ds \<Rightarrow>
             if int_max_str_digits < length ds then Inl (ValueError x)
             else Inr (if negative then - int (dec_value ds) else int (dec_value ds)))"

text \<open>\<^verbatim>\<open>s.split(",")\<close>: the pieces between the commas; never an empty list.\<close>

fun split_comma :: "string \<Rightarrow> string list" where
  "split_comma [] = [[]]"
| "split_comma (c # cs) =
     (if c = CHR '','' then [] # split_comma cs
      else (case split_comma cs of
              [] \<Rightarrow> [[c]]
            | w # ws \<Rightarrow> (c # w) # ws))"

text \<open>
  \<^verbatim>\<open>",".join(xs)\<close>: how a list of numerals is written with commas between them. It is
  not part of the script; the property on comma-separated lists is stated with it.
\<close>

fun join_comma :: "string list \<Rightarrow> string" where
  "join_comma [] = []"
| "join_comma [x] = x"
| "join_comma (x # y # ys) = x @ '','' @ join_comma (y # ys)"

subsection \<open>The search for the \<^verbatim>\<open>Languages\<close> attribute\<close>

text \<open>
  \<^verbatim>\<open>re.search(r'Languages\s*=\s*"(.+?)"', text)\<close> tries the pattern at every position
  from the left and returns the first match; \<open>None\<close> is Python's \<^verbatim>\<open>None\<close>, \<open>Some g\<close> a
  match whose group 1 is \<open>g\<close>.

  At one position the pattern has a single way to match. Each \<^verbatim>\<open>\s*\<close> is followed by a
  character that is not whitespace, so giving back whitespace never helps. The lazy
  \<^verbatim>\<open>.+?\<close> takes one character and then stops at the first double quote it meets; the dot
  does not match a line feed, so a line feed before that quote makes the position fail.
\<close>

fun strip_prefix :: "string \<Rightarrow> string \<Rightarrow> string option" where
  "strip_prefix [] s = Some s"
| "strip_prefix (p # ps) [] = None"
| "strip_prefix (p # ps) (c # cs) = (if p = c then strip_prefix ps cs else None)"

fun lazy_until_quote :: "string \<Rightarrow> string \<Rightarrow> string option" where
  "lazy_until_quote acc [] = None"
| "lazy_until_quote acc (c # cs) =
     (if c = dq then Some acc
      else if c = newline then None
      else lazy_until_quote (acc @ [c]) cs)"

definition group1 :: "string \<Rightarrow> string option" where
  "group1 s =
     (case s of
        [] \<Rightarrow> None
      | c # cs \<Rightarrow> if c = newline then None else lazy_until_quote [c] cs)"

definition match_at :: "string \<Rightarrow> string option" where
  "match_at s =
     (case strip_prefix ''Languages'' s of
        None \<Rightarrow> None
      | Some r \<Rightarrow>
          (case dropWhile re_space r of
             [] \<Rightarrow> None
           | c # r' \<Rightarrow>
               if c \<noteq> CHR ''='' then None
               else (case dropWhile re_space r' of
                       [] \<Rightarrow> None
                     | d # r'' \<Rightarrow> if d \<noteq> dq then None else group1 r'')))"

fun re_search_Languages :: "string \<Rightarrow> string option" where
  "re_search_Languages [] = match_at []"
| "re_search_Languages (c # cs) =
     (case match_at (c # cs) of
        Some g \<Rightarrow> Some g
      | None \<Rightarrow> re_search_Languages cs)"

subsection \<open>\<^verbatim>\<open>windows_installer_display_lang\<close>\<close>

text \<open>
  The list comprehension calls \<^verbatim>\<open>int\<close> on the pieces from left to right; the first
  piece that is refused ends it.
\<close>

fun int_each :: "string list \<Rightarrow> exn + int list" where
  "int_each [] = Inr []"
| "int_each (x # xs) =
     (case py_int x of
        Inl err \<Rightarrow> Inl err
      | Inr i \<Rightarrow> (case int_each xs of Inl err \<Rightarrow> Inl err | Inr is \<Rightarrow> Inr (i # is)))"

text \<open>
  The value of \<^verbatim>\<open>lcids\<close> (lines 93 to 100) from the text of the descriptor.
  \<^verbatim>\<open>.group(1)\<close> on \<^verbatim>\<open>None\<close> raises \<^verbatim>\<open>AttributeError\<close>.
\<close>

definition lcids_of :: "string \<Rightarrow> exn + int list" where
  "lcids_of text =
     (case re_search_Languages text of
        None \<Rightarrow> Inl (AttributeError ''group'')
      | Some g \<Rightarrow> int_each (split_comma g))"

text \<open>The value that line 127 assigns to \<^verbatim>\<open>SDKPATH\<close>.\<close>

definition SDKPATH :: string where
  "SDKPATH = ''C:'' @ [bs] @ ''Program Files (x86)'' @ [bs] @ ''Windows Kits'' @ [bs] @ ''10''
             @ [bs] @ ''bin'' @ [bs] @ ''10.0.19041.0'' @ [bs] @ ''x86''"

text \<open>
  The three command lines of the loop body, as the raw f-strings build them; \<open>sdk\<close> is
  the string bound to \<^verbatim>\<open>SDKPATH\<close>.
\<close>

definition cmd_WiLangId :: "env \<Rightarrow> string \<Rightarrow> string \<Rightarrow> int \<Rightarrow> string" where
  "cmd_WiLangId e sdk app_name lcid =
     ''cscript /nologo '' @ [dq] @ sdk @ [bs] @ ''WiLangId.vbs'' @ [dq] @ '' ''
     @ gettempdir e @ [bs] @ app_name @ ''_'' @ str_int lcid @ ''.msi Product '' @ str_int lcid"

definition cmd_MsiTran :: "env \<Rightarrow> string \<Rightarrow> string \<Rightarrow> int \<Rightarrow> string" where
  "cmd_MsiTran e sdk app_name lcid =
     [dq] @ sdk @ [bs] @ ''MsiTran.Exe'' @ [dq] @ '' -g ''
     @ gettempdir e @ [bs] @ app_name @ ''_1033.msi''
     @ '' '' @ gettempdir e @ [bs] @ app_name @ ''_'' @ str_int lcid @ ''.msi ''
     @ gettempdir e @ [bs] @ str_int lcid @ ''.mst''"

definition cmd_WiSubStg :: "env \<Rightarrow> string \<Rightarrow> string \<Rightarrow> int \<Rightarrow> string" where
  "cmd_WiSubStg e sdk filename lcid =
     ''cscript /nologo '' @ [dq] @ sdk @ [bs] @ ''WiSubStg.vbs'' @ [dq] @ '' ''
     @ filename @ '' '' @ gettempdir e @ [bs] @ str_int lcid @ ''.mst '' @ str_int lcid"

text \<open>
  \<^verbatim>\<open>shutil.copyfile(src, dst)\<close> on the files \<open>fs\<close> that exist. It first compares the two
  files and raises \<^verbatim>\<open>SameFileError\<close> when the source exists and the destination is the same
  file; then it opens the source, which raises \<^verbatim>\<open>FileNotFoundError\<close> when there is none.
  Otherwise the destination exists afterwards.
\<close>

definition copyfile :: "env \<Rightarrow> string set \<Rightarrow> string \<Rightarrow> string \<Rightarrow> exn + string set" where
  "copyfile e fs src dst =
     (if file_id e src \<in> fs \<and> file_id e src = file_id e dst then Inl (SameFileError src dst)
      else if file_id e src \<notin> fs then Inl (FileNotFoundError src)
      else Inr (insert (file_id e dst) fs))"

text \<open>
  The loop over \<^verbatim>\<open>lcids[1:]\<close>, on the files \<open>fs\<close> that exist when it starts. Each round
  copies the 1033 package, then builds the first command line, which reads the global
  \<^verbatim>\<open>SDKPATH\<close> before anything else: an unbound name raises \<^verbatim>\<open>NameError\<close> there, after
  the copy. The value of each \<^verbatim>\<open>os.system\<close> call is recorded in the action and otherwise
  dropped, as in the source. The external commands are taken to leave the packages in
  place, so the files that exist change by the copies only.
\<close>

fun locale_loop ::
    "env \<Rightarrow> string \<Rightarrow> string \<Rightarrow> string set \<Rightarrow> int list \<Rightarrow> (exn + unit) \<times> action list" where
  "locale_loop e app_name filename fs [] = (Inr (), [])"
| "locale_loop e app_name filename fs (lcid # rest) =
     (case copyfile e fs (join e (gettempdir e) (app_name @ ''_1033.msi''))
                         (join e (gettempdir e) (app_name @ ''_'' @ str_int lcid @ ''.msi'')) of
        Inl err \<Rightarrow> (Inl err, [])
      | Inr fs' \<Rightarrow>
          (case sdkpath e of
             None \<Rightarrow>
               (Inl (NameError ''SDKPATH''),
                [ Copyfile (join e (gettempdir e) (app_name @ ''_1033.msi''))
                           (join e (gettempdir e) (app_name @ ''_'' @ str_int lcid @ ''.msi'')) ])
           | Some sdk \<Rightarrow>
               (case locale_loop e app_name filename fs' rest of
                  (r, as) \<Rightarrow>
                    (r, [ Copyfile (join e (gettempdir e) (app_name @ ''_1033.msi''))
                                   (join e (gettempdir e) (app_name @ ''_'' @ str_int lcid @ ''.msi'')),
                          System (cmd_WiLangId e sdk app_name lcid)
                                 (os_system e (cmd_WiLangId e sdk app_name lcid)),
                          System (cmd_MsiTran e sdk app_name lcid)
                                 (os_system e (cmd_MsiTran e sdk app_name lcid)),
                          System (cmd_WiSubStg e sdk filename lcid)
                                 (os_system e (cmd_WiSubStg e sdk filename lcid)) ]
                        @ as))))"

text \<open>
  The function itself. The interpreter runs without \<^verbatim>\<open>-O\<close>, so the \<^verbatim>\<open>assert\<close>
  statement is executed. \<^verbatim>\<open>lcids[0]\<close> on an empty list would raise \<^verbatim>\<open>IndexError\<close>.
\<close>

definition windows_installer_display_lang ::
    "env \<Rightarrow> string \<Rightarrow> string \<Rightarrow> (exn + unit) \<times> action list" where
  "windows_installer_display_lang e app_name filename =
     (case file_text e (app_name @ ''.wxs'') of
        None \<Rightarrow> (Inl (FileNotFoundError (app_name @ ''.wxs'')), [])
      | Some text \<Rightarrow>
          (case lcids_of text of
             Inl err \<Rightarrow> (Inl err, [])
           | Inr lcids \<Rightarrow>
               (case lcids of
                  [] \<Rightarrow> (Inl IndexError, [])
                | first # rest \<Rightarrow>
                    if first \<noteq> 1033
                    then (Inl (AssertionError (''Default language is '' @ str_int first
                                               @ '', should be 1033 (en_US)'')), [])
                    else (case copyfile e (files e) filename
                                 (join e (gettempdir e) (app_name @ ''_1033.msi'')) of
                            Inl err \<Rightarrow> (Inl err, [])
                          | Inr fs \<Rightarrow>
                              (case locale_loop e app_name filename fs rest of
                                 (r, as) \<Rightarrow>
                                   (r, Copyfile filename
                                         (join e (gettempdir e) (app_name @ ''_1033.msi''))
                                       # as))))))"

subsection \<open>A build host for the examples\<close>

text \<open>
  A Windows host with Python 3.11, on which \<^verbatim>\<open>dist.win32\<close> and the installer package
  \<^verbatim>\<open>EDMarketConnector.msi\<close> exist. Its \<open>join\<close> puts a backslash between the two parts,
  which is what \<^verbatim>\<open>ntpath.join\<close> does for a directory without a trailing separator and a
  plain file name. The module was imported, so the name \<^verbatim>\<open>SDKPATH\<close> is unbound.
\<close>

definition host :: env where
  "host = \<lparr> sys_version_info = (3, 11, 9, ''final'', 0),
            sys_version = ''3.11.9'',
            sys_platform = ''win32'',
            git_shorthash_from_head = Some ''a1b2c3d'',
            isdir = (\<lambda>p. p \<in> {''dist.win32'', ''L10n'', ''.'', ''/''}),
            listdir = (\<lambda>d. if d = ''L10n''
                            then Some [''de.strings'', ''fr.strings'', ''readme.txt''] else None),
            file_text = (\<lambda>p. None),
            gettempdir = ''C:'' @ [bs] @ ''Temp'',
            join = (\<lambda>a b. a @ [bs] @ b),
            os_system = (\<lambda>cmd. 0),
            file_id = (\<lambda>p. p),
            files = {''EDMarketConnector.msi''},
            sdkpath = None \<rparr>"

text \<open>
  A descriptor with the given value of its \<^verbatim>\<open>Languages\<close> attribute, and the host on which
  \<^verbatim>\<open>EDMarketConnector.wxs\<close> has the given text.
\<close>

definition descriptor :: "string \<Rightarrow> string" where
  "descriptor langs = ''<Package Compressed='' @ [dq] @ ''yes'' @ [dq] @ '' Languages=''
                      @ [dq] @ langs @ [dq] @ '' />''"

definition host_with :: "string \<Rightarrow> env" where
  "host_with text =
     host\<lparr> file_text := (\<lambda>p. if p = ''EDMarketConnector.wxs'' then Some text else None) \<rparr>"

definition host2 :: env where
  "host2 = host\<lparr> sys_version_info := (3, 12, 1, ''final'', 0),
                 sys_version := ''3.12.1'',
                 isdir := (\<lambda>p. False) \<rparr>"

subsection \<open>Reading a list of actions\<close>

text \<open>
  The stamp writes, the copies and the command lines among the actions, in order: what
  the properties below speak about.
\<close>

fun writes :: "action list \<Rightarrow> (string \<times> string) list" where
  "writes [] = []"
| "writes (Write p t # as) = (p, t) # writes as"
| "writes (a # as) = writes as"

fun copies :: "action list \<Rightarrow> (string \<times> string) list" where
  "copies [] = []"
| "copies (Copyfile src dst # as) = (src, dst) # copies as"
| "copies (a # as) = copies as"

fun commands :: "action list \<Rightarrow> string list" where
  "commands [] = []"
| "commands (System cmd st # as) = cmd # commands as"
| "commands (a # as) = commands as"

text \<open>An action as it would read had \<^verbatim>\<open>os.system\<close> reported the statuses \<open>f\<close>.\<close>

fun restamp :: "(string \<Rightarrow> int) \<Rightarrow> action \<Rightarrow> action" where
  "restamp f (System cmd st) = System cmd (f cmd)"
| "restamp f a = a"

section \<open>Properties of \<^verbatim>\<open>system_check\<close>\<close>

text \<open>
  C1. For an output directory path that is empty or one character long the check never
  calls \<^verbatim>\<open>shutil.rmtree\<close>; and whenever it does call it, the argument is the given path,
  which is then non-empty, longer than one character, and a directory according to
  \<^verbatim>\<open>isdir\<close>.
\<close>

theorem system_check_rmtree_guard:
  "(length dist_dir \<le> 1 \<longrightarrow> (\<forall>d. Rmtree d \<notin> set (snd (system_check e dist_dir)))) \<and>
   (Rmtree d \<in> set (snd (system_check e dist_dir)) \<longrightarrow>
      d = dist_dir \<and> dist_dir \<noteq> [] \<and> 1 < length dist_dir \<and> isdir e dist_dir)"
  by (auto simp: system_check_def Let_def split: option.splits if_splits)

theorem system_check_rmtree_guard_witness:
  "length ''.'' \<le> (1::nat) \<and> (\<forall>d. Rmtree d \<notin> set (snd (system_check host ''.''))) \<and>
   Rmtree ''dist.win32'' \<in> set (snd (system_check host ''dist.win32'')) \<and>
   1 < length ''dist.win32'' \<and> isdir host ''dist.win32''"
  using system_check_rmtree_guard [of "''.''" host]
    system_check_rmtree_guard [of "''dist.win32''" host "''dist.win32''"]
  by (simp add: system_check_def host_def version_info_lt_def Let_def)

text \<open>
  C3. The check ends the process, with a non-empty message and a status other than 0 and
  before any action, whenever the interpreter is older than 3.11, the platform is not
  \<^verbatim>\<open>win32\<close>, or no short hash is available. In every other case it returns the path of
  the stamp file, and its only write is the hash into that file. The two outcomes exclude
  each other, so the process ends exactly in the three cases named.
\<close>

theorem system_check_exit_iff:
  "(version_info_lt (sys_version_info e) (3, 11) \<or> sys_platform e \<noteq> ''win32'' \<or>
      git_shorthash_from_head e = None
     \<longrightarrow> (\<exists>msg. system_check e dist_dir = (Inl (SystemExit msg), []) \<and> msg \<noteq> [] \<and>
                exit_status (SystemExit msg) \<noteq> 0)) \<and>
   (\<not> version_info_lt (sys_version_info e) (3, 11) \<and> sys_platform e = ''win32'' \<and>
      git_shorthash_from_head e = Some h
     \<longrightarrow> fst (system_check e dist_dir) = Inr ''.gitversion'' \<and>
         writes (snd (system_check e dist_dir)) = [(''.gitversion'', h)])"
  by (auto simp: system_check_def Let_def split: option.splits)

theorem system_check_exit_iff_witness:
  "system_check (host\<lparr>sys_version_info := (3, 10, 14, ''final'', 0),
                      sys_version := ''3.10.14''\<rparr>) ''dist.win32''
     = (Inl (SystemExit ''Unexpected Python version 3.10.14''), []) \<and>
   system_check (host\<lparr>sys_platform := ''linux''\<rparr>) ''dist.win32''
     = (Inl (SystemExit ''Unsupported platform linux''), []) \<and>
   system_check (host\<lparr>git_shorthash_from_head := None\<rparr>) ''dist.win32''
     = (Inl (SystemExit ''Invalid Git Hash''), []) \<and>
   fst (system_check host ''dist.win32'') = Inr ''.gitversion'' \<and>
   writes (snd (system_check host ''dist.win32'')) = [(''.gitversion'', ''a1b2c3d'')]"
  using system_check_exit_iff [of "host\<lparr>sys_version_info := (3, 10, 14, ''final'', 0),
                                          sys_version := ''3.10.14''\<rparr>" "''dist.win32''"]
    system_check_exit_iff [of "host\<lparr>sys_platform := ''linux''\<rparr>" "''dist.win32''"]
    system_check_exit_iff [of "host\<lparr>git_shorthash_from_head := None\<rparr>" "''dist.win32''"]
    system_check_exit_iff [of host "''dist.win32''" "''a1b2c3d''"]
  by (simp add: system_check_def host_def version_info_lt_def Let_def)

text \<open>
  C8. Two runs of the check that both get as far as the short hash, and obtain the same
  hash, write the same content to the same stamp file, whatever else differs between them
  (output directory, state of the file system, interpreter version). The content is the
  text handed to \<^verbatim>\<open>write\<close>; the file is opened with a fixed encoding, so equal text is
  equal bytes.
\<close>

theorem system_check_stamp_deterministic:
  assumes "\<not> version_info_lt (sys_version_info e1) (3, 11)" and "sys_platform e1 = ''win32''"
    and "\<not> version_info_lt (sys_version_info e2) (3, 11)" and "sys_platform e2 = ''win32''"
    and "git_shorthash_from_head e1 = Some h" and "git_shorthash_from_head e2 = Some h"
  shows "writes (snd (system_check e1 d1)) = writes (snd (system_check e2 d2)) \<and>
         writes (snd (system_check e1 d1)) = [(''.gitversion'', h)]"
  using assms by (simp add: system_check_def Let_def)

theorem system_check_stamp_deterministic_witness:
  "writes (snd (system_check host ''dist.win32'')) = writes (snd (system_check host2 ''out''))
   \<and> writes (snd (system_check host ''dist.win32'')) = [(''.gitversion'', ''a1b2c3d'')]"
proof -
  have v1: "\<not> version_info_lt (sys_version_info host) (3, 11)"
    and v2: "\<not> version_info_lt (sys_version_info host2) (3, 11)"
    by (simp_all add: host_def host2_def version_info_lt_def)
  have p1: "sys_platform host = ''win32''" and p2: "sys_platform host2 = ''win32''"
    by (simp_all add: host_def host2_def)
  have g1: "git_shorthash_from_head host = Some ''a1b2c3d''"
    and g2: "git_shorthash_from_head host2 = Some ''a1b2c3d''"
    by (simp_all add: host_def host2_def)
  show ?thesis
    by (rule system_check_stamp_deterministic [OF v1 p1 v2 p2 g1 g2])
qed

section \<open>Properties of \<^verbatim>\<open>generate_data_files\<close>\<close>

lemma comprehension_filter:
  "[f x. x \<leftarrow> xs, P x] = map f (filter P xs)"
  by (induction xs) simp_all

lemma generate_data_files_Some:
  assumes "listdir e ''L10n'' = Some names"
  shows "generate_data_files e app_name gitversion_file =
     Inr [ ([],
            [ gitversion_file, ''WinSparkle.dll'', ''WinSparkle.pdb'', ''EUROCAPS.TTF'',
              ''ChangeLog.md'', ''snd_good.wav'', ''snd_bad.wav'', ''modules.p'', ''ships.p'',
              app_name @ ''.VisualElementsManifest.xml'', app_name @ ''.ico'',
              ''EDMarketConnector - TRACE.bat'', ''EDMarketConnector - localserver-auth.bat'',
              ''EDMarketConnector - reset-ui.bat'' ]),
           (''L10n'', map (join e ''L10n'') (filter (\<lambda>x. endswith x ''.strings'') names)),
           (''FDevIDs'', [ join e ''FDevIDs'' ''commodity.csv'',
                           join e ''FDevIDs'' ''rare_commodity.csv'' ]),
           (''plugins'', PLUGINS) ]"
  using assms by (simp add: generate_data_files_def Let_def comprehension_filter)

text \<open>
  C6. Whatever \<^verbatim>\<open>os.listdir\<close> returns for the localization directory, the manifest has
  one entry for \<^verbatim>\<open>L10n\<close>, and its file list is the listed names that end in
  \<^verbatim>\<open>.strings\<close>, each joined to the directory, in listing order: a path is in the list
  exactly if it comes from such a name. For the listing \<^verbatim>\<open>de.strings\<close>,
  \<^verbatim>\<open>fr.strings\<close>, \<^verbatim>\<open>readme.txt\<close> the list is the two \<^verbatim>\<open>.strings\<close> paths.
\<close>

theorem generate_data_files_l10n:
  assumes "listdir e ''L10n'' = Some names"
  shows "\<exists>m l. generate_data_files e app_name gitversion_file = Inr m \<and>
           map fst m = [[], ''L10n'', ''FDevIDs'', ''plugins''] \<and>
           map_of m ''L10n'' = Some l \<and>
           l = map (join e ''L10n'') (filter (\<lambda>x. endswith x ''.strings'') names) \<and>
           (\<forall>p. p \<in> set l \<longleftrightarrow>
                (\<exists>x. x \<in> set names \<and> endswith x ''.strings'' \<and> p = join e ''L10n'' x)) \<and>
           (names = [''de.strings'', ''fr.strings'', ''readme.txt''] \<longrightarrow>
              l = [join e ''L10n'' ''de.strings'', join e ''L10n'' ''fr.strings''])"
proof -
  let ?l = "map (join e ''L10n'') (filter (\<lambda>x. endswith x ''.strings'') names)"
  have a: "\<forall>p. p \<in> set ?l \<longleftrightarrow>
                (\<exists>x. x \<in> set names \<and> endswith x ''.strings'' \<and> p = join e ''L10n'' x)"
    by auto
  have b: "names = [''de.strings'', ''fr.strings'', ''readme.txt''] \<longrightarrow>
             ?l = [join e ''L10n'' ''de.strings'', join e ''L10n'' ''fr.strings'']"
    by (simp add: endswith_def)
  show ?thesis
    unfolding generate_data_files_Some [OF assms]
    using a b by simp
qed

theorem generate_data_files_l10n_witness:
  "\<exists>m. generate_data_files host ''EDMarketConnector'' ''.gitversion'' = Inr m \<and>
       map_of m ''L10n'' = Some [''L10n'' @ [bs] @ ''de.strings'', ''L10n'' @ [bs] @ ''fr.strings'']"
proof -
  have l: "listdir host ''L10n'' = Some [''de.strings'', ''fr.strings'', ''readme.txt'']"
    by (simp add: host_def)
  have j: "join host ''L10n'' ''de.strings'' = ''L10n'' @ [bs] @ ''de.strings''"
    "join host ''L10n'' ''fr.strings'' = ''L10n'' @ [bs] @ ''fr.strings''"
    by (simp_all add: host_def)
  show ?thesis
    using generate_data_files_l10n [OF l, of "''EDMarketConnector''" "''.gitversion''"]
    apply (elim exE conjE)
    apply (intro exI conjI, assumption)
    apply (simp only: j refl simp_thms)
    done
qed

text \<open>
  C9. When the localization directory exists and none of the listed names ends in
  \<^verbatim>\<open>.strings\<close>, the function returns (it does not raise) the whole manifest, with the
  empty list as the file list of the \<^verbatim>\<open>L10n\<close> entry.
\<close>

theorem generate_data_files_no_strings:
  assumes "listdir e ''L10n'' = Some names"
    and "\<forall>x \<in> set names. \<not> endswith x ''.strings''"
  shows "generate_data_files e app_name gitversion_file =
     Inr [ ([],
            [ gitversion_file, ''WinSparkle.dll'', ''WinSparkle.pdb'', ''EUROCAPS.TTF'',
              ''ChangeLog.md'', ''snd_good.wav'', ''snd_bad.wav'', ''modules.p'', ''ships.p'',
              app_name @ ''.VisualElementsManifest.xml'', app_name @ ''.ico'',
              ''EDMarketConnector - TRACE.bat'', ''EDMarketConnector - localserver-auth.bat'',
              ''EDMarketConnector - reset-ui.bat'' ]),
           (''L10n'', []),
           (''FDevIDs'', [ join e ''FDevIDs'' ''commodity.csv'',
                           join e ''FDevIDs'' ''rare_commodity.csv'' ]),
           (''plugins'', PLUGINS) ]"
proof -
  have "filter (\<lambda>x. endswith x ''.strings'') names = []"
    using assms(2) by (simp add: filter_empty_conv)
  then show ?thesis
    unfolding generate_data_files_Some [OF assms(1)] by simp
qed

theorem generate_data_files_no_strings_witness:
  "\<exists>rest. generate_data_files (host\<lparr>listdir := (\<lambda>d. Some [''readme.txt'', ''strings''])\<rparr>)
             ''EDMarketConnector'' ''.gitversion''
           = Inr ([([], ''.gitversion'' # rest),
                  (''L10n'', []),
                  (''FDevIDs'', [''FDevIDs'' @ [bs] @ ''commodity.csv'',
                                 ''FDevIDs'' @ [bs] @ ''rare_commodity.csv'']),
                  (''plugins'', PLUGINS)])"
proof -
  let ?e = "host\<lparr>listdir := (\<lambda>d. Some [''readme.txt'', ''strings''])\<rparr>"
  have l: "listdir ?e ''L10n'' = Some [''readme.txt'', ''strings'']"
    by simp
  have n: "\<forall>x \<in> set [''readme.txt'', ''strings'']. \<not> endswith x ''.strings''"
    by (simp add: endswith_def)
  have j: "join ?e = (\<lambda>a b. a @ [bs] @ b)"
    by (simp add: host_def)
  show ?thesis
    unfolding generate_data_files_no_strings [OF l n] j by simp
qed

section \<open>Properties of \<^verbatim>\<open>windows_installer_display_lang\<close>\<close>

lemma split_comma_nonempty: "split_comma s \<noteq> []"
  by (induction s) (auto split: list.splits)

lemma int_each_length: "int_each xs = Inr is \<Longrightarrow> length is = length xs"
  by (induction xs arbitrary: "is") (auto split: sum.splits)

lemma lcids_of_nonempty: "lcids_of text = Inr lcids \<Longrightarrow> lcids \<noteq> []"
  using split_comma_nonempty int_each_length
  by (fastforce simp: lcids_of_def split: option.splits)

lemma file_text_host_with:
  "file_text (host_with text) (''EDMarketConnector'' @ ''.wxs'') = Some text"
  by (simp add: host_with_def)

text \<open>
  C2. When the descriptor parses to a list of locale IDs whose first entry is not 1033,
  the function ends with \<^verbatim>\<open>AssertionError\<close> (the message names the entry found) and has
  performed no action at all: no copy was made, so no per-locale package exists in the
  temporary directory on its account. A parsed list is never empty.
\<close>

theorem wrong_default_language_aborts:
  assumes "file_text e (app_name @ ''.wxs'') = Some text"
    and "lcids_of text = Inr lcids"
    and "take 1 lcids \<noteq> [1033]"
  shows "\<exists>first rest. lcids = first # rest \<and> first \<noteq> 1033 \<and>
           windows_installer_display_lang e app_name filename =
             (Inl (AssertionError (''Default language is '' @ str_int first
                                   @ '', should be 1033 (en_US)'')), []) \<and>
           copies (snd (windows_installer_display_lang e app_name filename)) = []"
proof -
  from assms(2) have "lcids \<noteq> []" by (rule lcids_of_nonempty)
  then obtain first rest where l: "lcids = first # rest" by (cases lcids) auto
  with assms(3) have f: "first \<noteq> 1033" by simp
  from assms(1,2) l f show ?thesis
    by (simp add: windows_installer_display_lang_def)
qed

theorem wrong_default_language_aborts_witness:
  "windows_installer_display_lang (host_with (descriptor ''1031,1033''))
       ''EDMarketConnector'' ''EDMarketConnector.msi''
     = (Inl (AssertionError ''Default language is 1031, should be 1033 (en_US)''), [])"
proof -
  have l: "lcids_of (descriptor ''1031,1033'') = Inr [1031, 1033]" by code_simp
  have t: "take 1 [1031, 1033 :: int] \<noteq> [1033]" by simp
  have s: "str_int 1031 = ''1031''" by code_simp
  from wrong_default_language_aborts [OF file_text_host_with l t, of "''EDMarketConnector.msi''"]
  show ?thesis by (simp add: s)
qed

text \<open>
  C10. When \<^verbatim>\<open>re.search\<close> finds no match of the pattern in the descriptor, the function
  ends with the \<^verbatim>\<open>AttributeError\<close> of \<^verbatim>\<open>.group\<close> on \<^verbatim>\<open>None\<close>, and has performed no
  action: no copy and no external command.
\<close>

theorem no_languages_attribute_raises:
  assumes "file_text e (app_name @ ''.wxs'') = Some text"
    and "re_search_Languages text = None"
  shows "windows_installer_display_lang e app_name filename = (Inl (AttributeError ''group''), [])
         \<and> copies (snd (windows_installer_display_lang e app_name filename)) = []
         \<and> commands (snd (windows_installer_display_lang e app_name filename)) = []"
  using assms by (simp add: windows_installer_display_lang_def lcids_of_def)

theorem no_languages_attribute_raises_witness:
  "windows_installer_display_lang
       (host_with (''<Package Language='' @ [dq] @ ''1033'' @ [dq] @ '' />''))
       ''EDMarketConnector'' ''EDMarketConnector.msi''
     = (Inl (AttributeError ''group''), [])"
proof -
  have n: "re_search_Languages (''<Package Language='' @ [dq] @ ''1033'' @ [dq] @ '' />'') = None"
    by code_simp
  from no_languages_attribute_raises [OF file_text_host_with n, of "''EDMarketConnector.msi''"]
  show ?thesis by simp
qed

lemma copyfile_os_system [simp]:
  "copyfile (e\<lparr>os_system := f\<rparr>) fs src dst = copyfile e fs src dst"
proof -
  have "file_id (e\<lparr>os_system := f\<rparr>) = file_id e" by simp
  then show ?thesis unfolding copyfile_def by (simp only:)
qed

lemma cmd_os_system [simp]:
  "cmd_WiLangId (e\<lparr>os_system := f\<rparr>) sdk app_name lcid = cmd_WiLangId e sdk app_name lcid"
  "cmd_MsiTran (e\<lparr>os_system := f\<rparr>) sdk app_name lcid = cmd_MsiTran e sdk app_name lcid"
  "cmd_WiSubStg (e\<lparr>os_system := f\<rparr>) sdk filename lcid = cmd_WiSubStg e sdk filename lcid"
  by (simp_all add: cmd_WiLangId_def cmd_MsiTran_def cmd_WiSubStg_def)

lemma locale_loop_os_system:
  "locale_loop (e\<lparr>os_system := f\<rparr>) app_name filename fs ls =
     (fst (locale_loop (e\<lparr>os_system := g\<rparr>) app_name filename fs ls),
      map (restamp f) (snd (locale_loop (e\<lparr>os_system := g\<rparr>) app_name filename fs ls)))"
proof (induction ls arbitrary: fs)
  case Nil
  show ?case by simp
next
  case (Cons lcid rest)
  let ?src = "join e (gettempdir e) (app_name @ ''_1033.msi'')"
  let ?dst = "join e (gettempdir e) (app_name @ ''_'' @ str_int lcid @ ''.msi'')"
  show ?case
  proof (cases "copyfile e fs ?src ?dst")
    case (Inl err)
    then show ?thesis by simp
  next
    case (Inr fs')
    show ?thesis
    proof (cases "sdkpath e")
      case None
      with Inr show ?thesis by simp
    next
      case (Some sdk)
      obtain r as where g: "locale_loop (e\<lparr>os_system := g\<rparr>) app_name filename fs' rest = (r, as)"
        by (cases "locale_loop (e\<lparr>os_system := g\<rparr>) app_name filename fs' rest") 
      with Cons.IH [of fs']
      have f: "locale_loop (e\<lparr>os_system := f\<rparr>) app_name filename fs' rest = (r, map (restamp f) as)"
        by simp
      from Inr Some f g show ?thesis by simp
    qed
  qed
qed

lemma windows_installer_display_lang_os_system:
  "windows_installer_display_lang (e\<lparr>os_system := f\<rparr>) app_name filename =
     (fst (windows_installer_display_lang (e\<lparr>os_system := g\<rparr>) app_name filename),
      map (restamp f) (snd (windows_installer_display_lang (e\<lparr>os_system := g\<rparr>) app_name filename)))"
proof -
  have l: "locale_loop (e\<lparr>os_system := f\<rparr>) app_name filename fs ls =
             (fst (locale_loop (e\<lparr>os_system := g\<rparr>) app_name filename fs ls),
              map (restamp f) (snd (locale_loop (e\<lparr>os_system := g\<rparr>) app_name filename fs ls)))"
    for fs ls by (rule locale_loop_os_system)
  show ?thesis
    unfolding windows_installer_display_lang_def
    by (simp add: l split: option.split sum.split list.split prod.split)
qed

lemma commands_locale_loop:
  assumes "sdkpath e = Some sdk"
  shows "fst (locale_loop e app_name filename fs ls) = Inr () \<Longrightarrow>
   commands (snd (locale_loop e app_name filename fs ls)) =
     concat (map (\<lambda>lcid. [cmd_WiLangId e sdk app_name lcid, cmd_MsiTran e sdk app_name lcid,
                           cmd_WiSubStg e sdk filename lcid]) ls)"
proof (induction ls arbitrary: fs)
  case Nil
  show ?case by simp
next
  case (Cons lcid rest)
  let ?src = "join e (gettempdir e) (app_name @ ''_1033.msi'')"
  let ?dst = "join e (gettempdir e) (app_name @ ''_'' @ str_int lcid @ ''.msi'')"
  show ?case
  proof (cases "copyfile e fs ?src ?dst")
    case (Inl err)
    with Cons.prems show ?thesis by simp
  next
    case (Inr fs')
    obtain r as where g: "locale_loop e app_name filename fs' rest = (r, as)"
      by (cases "locale_loop e app_name filename fs' rest")
    from Cons.prems Inr assms g have r: "r = Inr ()" by simp
    from Cons.IH [of fs'] g r have "commands as =
        concat (map (\<lambda>lcid. [cmd_WiLangId e sdk app_name lcid, cmd_MsiTran e sdk app_name lcid,
                           cmd_WiSubStg e sdk filename lcid]) rest)" by simp
    with Inr assms g show ?thesis by simp
  qed
qed

lemma commands_windows_installer_display_lang:
  assumes "file_text e (app_name @ ''.wxs'') = Some text"
    and "lcids_of text = Inr (first # rest)"
    and "sdkpath e = Some sdk"
    and "fst (windows_installer_display_lang e app_name filename) = Inr ()"
  shows "commands (snd (windows_installer_display_lang e app_name filename)) =
     concat (map (\<lambda>lcid. [cmd_WiLangId e sdk app_name lcid, cmd_MsiTran e sdk app_name lcid,
                           cmd_WiSubStg e sdk filename lcid]) rest)"
proof -
  let ?dst = "join e (gettempdir e) (app_name @ ''_1033.msi'')"
  from assms(1,2,4) have f: "first = 1033"
    by (auto simp: windows_installer_display_lang_def split: if_splits)
  from assms(1,2,4) f obtain fs where c: "copyfile e (files e) filename ?dst = Inr fs"
    by (cases "copyfile e (files e) filename ?dst")
       (auto simp: windows_installer_display_lang_def)
  obtain r as where l: "locale_loop e app_name filename fs rest = (r, as)"
    by (cases "locale_loop e app_name filename fs rest")
  from assms(1,2) f c l
  have w: "windows_installer_display_lang e app_name filename = (r, Copyfile filename ?dst # as)"
    by (simp add: windows_installer_display_lang_def)
  with assms(4) have "r = Inr ()" by simp
  with l have "fst (locale_loop e app_name filename fs rest) = Inr ()" by simp
  with assms(3) have "commands (snd (locale_loop e app_name filename fs rest)) =
     concat (map (\<lambda>lcid. [cmd_WiLangId e sdk app_name lcid, cmd_MsiTran e sdk app_name lcid,
                           cmd_WiSubStg e sdk filename lcid]) rest)"
    by (rule commands_locale_loop)
  with w l show ?thesis by simp
qed

text \<open>
  C4. The exit statuses that \<^verbatim>\<open>os.system\<close> reports never reach the control flow. Run the
  function twice in the same surroundings, once with the statuses \<open>f\<close> and once with the
  statuses \<open>g\<close>, both arbitrary: \<open>g\<close> may report zero for every command and \<open>f\<close> a
  failure for any of them. Both runs end the same way, with the same exception if any, and
  perform the same actions in the same order; only the statuses recorded in them differ.
  In particular, when the run under \<open>g\<close> returns normally, the run under \<open>f\<close> returns
  normally too, and it has run the three command lines of every locale ID after the first,
  in the order of the list.
\<close>

theorem exit_codes_ignored:
  "fst (windows_installer_display_lang (e\<lparr>os_system := f\<rparr>) app_name filename) =
     fst (windows_installer_display_lang (e\<lparr>os_system := g\<rparr>) app_name filename) \<and>
   snd (windows_installer_display_lang (e\<lparr>os_system := f\<rparr>) app_name filename) =
     map (restamp f) (snd (windows_installer_display_lang (e\<lparr>os_system := g\<rparr>) app_name filename)) \<and>
   (file_text e (app_name @ ''.wxs'') = Some wxs \<and> lcids_of wxs = Inr (first # rest) \<and>
    sdkpath e = Some sdk \<and>
    fst (windows_installer_display_lang (e\<lparr>os_system := g\<rparr>) app_name filename) = Inr ()
    \<longrightarrow> fst (windows_installer_display_lang (e\<lparr>os_system := f\<rparr>) app_name filename) = Inr () \<and>
        commands (snd (windows_installer_display_lang (e\<lparr>os_system := f\<rparr>) app_name filename)) =
          concat (map (\<lambda>lcid. [cmd_WiLangId e sdk app_name lcid, cmd_MsiTran e sdk app_name lcid,
                                cmd_WiSubStg e sdk filename lcid]) rest))"
proof -
  let ?f = "windows_installer_display_lang (e\<lparr>os_system := f\<rparr>) app_name filename"
  let ?g = "windows_installer_display_lang (e\<lparr>os_system := g\<rparr>) app_name filename"
  have i: "?f = (fst ?g, map (restamp f) (snd ?g))"
    by (rule windows_installer_display_lang_os_system)
  have a: "fst ?f = fst ?g" by (subst i) simp
  have b: "snd ?f = map (restamp f) (snd ?g)" by (subst i) simp
  have c: "commands (snd ?f) =
          concat (map (\<lambda>lcid. [cmd_WiLangId e sdk app_name lcid, cmd_MsiTran e sdk app_name lcid,
                                cmd_WiSubStg e sdk filename lcid]) rest)"
    if t: "file_text e (app_name @ ''.wxs'') = Some wxs" and l: "lcids_of wxs = Inr (first # rest)"
      and s: "sdkpath e = Some sdk" and r: "fst ?g = Inr ()"
  proof -
    have t': "file_text (e\<lparr>os_system := f\<rparr>) (app_name @ ''.wxs'') = Some wxs" using t by simp
    have s': "sdkpath (e\<lparr>os_system := f\<rparr>) = Some sdk" using s by simp
    have r': "fst ?f = Inr ()" using a r by simp
    from commands_windows_installer_display_lang [OF t' l s' r'] show ?thesis by simp
  qed
  from a b c show ?thesis by simp
qed

theorem exit_codes_ignored_witness:
  "fst (windows_installer_display_lang
          ((host_with (descriptor ''1033,1031,1036''))\<lparr>sdkpath := Some SDKPATH, os_system := (\<lambda>cmd. 1)\<rparr>)
          ''EDMarketConnector'' ''EDMarketConnector.msi'') = Inr () \<and>
   commands (snd (windows_installer_display_lang
          ((host_with (descriptor ''1033,1031,1036''))\<lparr>sdkpath := Some SDKPATH, os_system := (\<lambda>cmd. 1)\<rparr>)
          ''EDMarketConnector'' ''EDMarketConnector.msi'')) =
     [ cmd_WiLangId host SDKPATH ''EDMarketConnector'' 1031,
       cmd_MsiTran host SDKPATH ''EDMarketConnector'' 1031,
       cmd_WiSubStg host SDKPATH ''EDMarketConnector.msi'' 1031,
       cmd_WiLangId host SDKPATH ''EDMarketConnector'' 1036,
       cmd_MsiTran host SDKPATH ''EDMarketConnector'' 1036,
       cmd_WiSubStg host SDKPATH ''EDMarketConnector.msi'' 1036 ]"
proof -
  let ?e = "(host_with (descriptor ''1033,1031,1036''))\<lparr>sdkpath := Some SDKPATH\<rparr>"
  have t: "file_text ?e (''EDMarketConnector'' @ ''.wxs'') = Some (descriptor ''1033,1031,1036'')"
    by (simp add: host_with_def)
  have l: "lcids_of (descriptor ''1033,1031,1036'') = Inr [1033, 1031, 1036]" by code_simp
  have s: "sdkpath ?e = Some SDKPATH" by simp
  have r: "fst (windows_installer_display_lang (?e\<lparr>os_system := (\<lambda>cmd. 0)\<rparr>)
                 ''EDMarketConnector'' ''EDMarketConnector.msi'') = Inr ()"
    by code_simp
  have c: "cmd_WiLangId ?e = cmd_WiLangId host" "cmd_MsiTran ?e = cmd_MsiTran host"
    "cmd_WiSubStg ?e = cmd_WiSubStg host"
    by (simp_all add: fun_eq_iff cmd_WiLangId_def cmd_MsiTran_def cmd_WiSubStg_def host_with_def)
  from exit_codes_ignored [where e = ?e and f = "\<lambda>cmd. 1" and g = "\<lambda>cmd. 0"
      and app_name = "''EDMarketConnector''" and filename = "''EDMarketConnector.msi''"
      and wxs = "descriptor ''1033,1031,1036''" and first = 1033 and rest = "[1031, 1036]"
      and sdk = SDKPATH, THEN conjunct2, THEN conjunct2, THEN mp,
      OF conjI [OF t conjI [OF l conjI [OF s r]]]]
  show ?thesis by (simp add: c)
qed

text \<open>
  C5. Take the descriptor with the locale list \<open>[1033, 1031, 1036]\<close> on the host above: the
  module was imported, and nothing has bound \<^verbatim>\<open>SDKPATH\<close>. The function copies the input
  package to the 1033 package and the 1033 package to the 1031 package. Building the first
  command line, at line 110, then raises \<^verbatim>\<open>NameError\<close>. The copy for 1036 is never made:
  two copies, not three.
\<close>

theorem three_locales_sdkpath_unbound:
  "windows_installer_display_lang (host_with (descriptor ''1033,1031,1036''))
       ''EDMarketConnector'' ''EDMarketConnector.msi'' =
     (Inl (NameError ''SDKPATH''),
      [ Copyfile ''EDMarketConnector.msi''
                 (''C:'' @ [bs] @ ''Temp'' @ [bs] @ ''EDMarketConnector_1033.msi''),
        Copyfile (''C:'' @ [bs] @ ''Temp'' @ [bs] @ ''EDMarketConnector_1033.msi'')
                 (''C:'' @ [bs] @ ''Temp'' @ [bs] @ ''EDMarketConnector_1031.msi'') ])"
  by code_simp

text \<open>
  Once the caller has bound \<^verbatim>\<open>SDKPATH\<close>, the same call returns normally and makes the
  three copies.
\<close>

lemma three_locales_sdkpath_bound:
  "fst (windows_installer_display_lang
          ((host_with (descriptor ''1033,1031,1036''))\<lparr>sdkpath := Some SDKPATH\<rparr>)
          ''EDMarketConnector'' ''EDMarketConnector.msi'') = Inr () \<and>
   copies (snd (windows_installer_display_lang
          ((host_with (descriptor ''1033,1031,1036''))\<lparr>sdkpath := Some SDKPATH\<rparr>)
          ''EDMarketConnector'' ''EDMarketConnector.msi'')) =
     [ (''EDMarketConnector.msi'', ''C:'' @ [bs] @ ''Temp'' @ [bs] @ ''EDMarketConnector_1033.msi''),
       (''C:'' @ [bs] @ ''Temp'' @ [bs] @ ''EDMarketConnector_1033.msi'',
        ''C:'' @ [bs] @ ''Temp'' @ [bs] @ ''EDMarketConnector_1031.msi''),
       (''C:'' @ [bs] @ ''Temp'' @ [bs] @ ''EDMarketConnector_1033.msi'',
        ''C:'' @ [bs] @ ''Temp'' @ [bs] @ ''EDMarketConnector_1036.msi'') ]"
  by code_simp

section \<open>The locale list of a descriptor\<close>

subsection \<open>Numerals\<close>

lemma is_digit_digit_char: "d < 10 \<Longrightarrow> is_digit (digit_char d)"
  by (simp add: is_digit_def digit_char_def)

lemma digit_val_digit_char: "d < 10 \<Longrightarrow> digit_val (digit_char d) = d"
  by (simp add: digit_val_def digit_char_def)

lemma str_nat_digits: "\<forall>c \<in> set (str_nat n). is_digit c"
proof (induction n rule: str_nat.induct)
  case (1 n)
  show ?case
  proof (cases "n < 10")
    case True
    then show ?thesis by (simp add: str_nat.simps [of n] is_digit_digit_char)
  next
    case False
    with 1 show ?thesis by (simp add: str_nat.simps [of n] is_digit_digit_char)
  qed
qed

lemma str_nat_nonempty: "str_nat n \<noteq> []"
  by (simp add: str_nat.simps [of n])

lemma dec_value_snoc: "dec_value (ds @ [c]) = 10 * dec_value ds + digit_val c"
  by (simp add: dec_value_def)

lemma dec_value_str_nat: "dec_value (str_nat n) = n"
proof (induction n rule: str_nat.induct)
  case (1 n)
  show ?case
  proof (cases "n < 10")
    case True
    then show ?thesis by (simp add: str_nat.simps [of n] dec_value_def digit_val_digit_char)
  next
    case False
    with 1 show ?thesis
      by (simp add: str_nat.simps [of n] dec_value_snoc digit_val_digit_char)
  qed
qed

lemma length_str_nat: "0 < k \<Longrightarrow> n < 10 ^ k \<Longrightarrow> length (str_nat n) \<le> k"
proof (induction n arbitrary: k rule: str_nat.induct)
  case (1 n)
  show ?case
  proof (cases "n < 10")
    case True
    with 1(2) show ?thesis by (simp add: str_nat.simps [of n])
  next
    case False
    then obtain j where k: "k = Suc j" using 1(2) by (cases k) auto
    have j0: "0 < j"
    proof (rule ccontr)
      assume "\<not> 0 < j"
      with k 1(3) False show False by simp
    qed
    have "n div 10 < 10 ^ j"
      using 1(3) k by (simp add: less_mult_imp_div_less mult.commute)
    with 1(1) [OF False j0] have "length (str_nat (n div 10)) \<le> j" by simp
    with False k show ?thesis by (simp add: str_nat.simps [of n])
  qed
qed

lemma digit_group_digits:
  "ds \<noteq> [] \<Longrightarrow> \<forall>c \<in> set ds. is_digit c \<Longrightarrow> digit_group ds = Some ds"
proof (induction ds rule: digit_group.induct)
  case 1
  then show ?case by simp
next
  case (2 c cs)
  show ?case
  proof (cases cs)
    case Nil
    with 2(3) show ?thesis by simp
  next
    case (Cons d ds)
    with 2(3) have "is_digit d" by simp
    then have nu: "d \<noteq> CHR ''_''" by (auto simp: is_digit_def)
    from 2(3) have c: "is_digit c" by simp
    have "digit_group (if d = CHR ''_'' then ds else d # ds) = Some (if d = CHR ''_'' then ds else d # ds)"
      using 2(1) [OF _ Cons] c 2(3) Cons nu by simp
    with c Cons nu show ?thesis by simp
  qed
qed

lemma is_digit_not_space: "is_digit c \<Longrightarrow> \<not> int_space c"
  by (auto simp: is_digit_def int_space_def)

lemma strip_int_id:
  assumes "s \<noteq> []" and "\<not> int_space (hd s)" and "\<not> int_space (last s)"
  shows "strip_int s = s"
proof -
  from assms(1,2) have a: "dropWhile int_space s = s" by (cases s) auto
  from assms(1,3) have b: "dropWhile int_space (rev s) = rev s"
    by (cases "rev s") (auto simp: last_rev [symmetric] hd_rev)
  show ?thesis by (simp add: strip_int_def a b)
qed

lemma hd_last_str_nat: "is_digit (hd (str_nat n))" "is_digit (last (str_nat n))"
  using str_nat_digits [of n] str_nat_nonempty [of n] by (auto simp: hd_in_set)

lemma no_sign:
  assumes "s \<noteq> []" and "hd s \<noteq> CHR ''-''" and "hd s \<noteq> CHR ''+''"
  shows "(case s of [] \<Rightarrow> False | c # cs \<Rightarrow> c = CHR ''-'') = False"
    and "(case s of [] \<Rightarrow> [] | c # cs \<Rightarrow> if c = CHR ''-'' \<or> c = CHR ''+'' then cs else s) = s"
  using assms by (cases s; simp)+

lemma py_int_str_nat:
  assumes "n < 10 ^ int_max_str_digits"
  shows "py_int (str_nat n) = Inr (int n)"
proof -
  let ?s = "str_nat n"
  have s: "strip_int ?s = ?s"
    by (rule strip_int_id) (simp_all add: str_nat_nonempty hd_last_str_nat is_digit_not_space)
  have "is_digit (hd ?s)" by (rule hd_last_str_nat)
  then have c: "hd ?s \<noteq> CHR ''-''" "hd ?s \<noteq> CHR ''+''" by (auto simp: is_digit_def)
  note ns = no_sign [OF str_nat_nonempty c]
  have g: "digit_group ?s = Some ?s"
    by (rule digit_group_digits) (simp_all add: str_nat_nonempty str_nat_digits)
  have p: "0 < int_max_str_digits" by (simp add: int_max_str_digits_def)
  have l: "length ?s \<le> int_max_str_digits"
    using p assms by (rule length_str_nat)
  show ?thesis
    unfolding py_int_def s Let_def ns g using l by (simp add: dec_value_str_nat)
qed

lemma py_int_str_int:
  assumes "nat \<bar>i\<bar> < 10 ^ int_max_str_digits"
  shows "py_int (str_int i) = Inr i"
proof (cases "i < 0")
  case False
  with assms py_int_str_nat [of "nat i"] show ?thesis by (simp add: str_int_def)
next
  case True
  let ?n = "nat (- i)"
  let ?s = "CHR ''-'' # str_nat ?n"
  have n: "?n < 10 ^ int_max_str_digits" using assms True by simp
  have s: "strip_int ?s = ?s"
  proof (rule strip_int_id)
    show "\<not> int_space (hd ?s)" by (simp add: int_space_def)
    show "\<not> int_space (last ?s)"
      by (simp add: str_nat_nonempty hd_last_str_nat is_digit_not_space)
  qed simp
  have g: "digit_group (str_nat ?n) = Some (str_nat ?n)"
    by (rule digit_group_digits) (simp_all add: str_nat_nonempty str_nat_digits)
  have p: "0 < int_max_str_digits" by (simp add: int_max_str_digits_def)
  have l: "length (str_nat ?n) \<le> int_max_str_digits"
    using p n by (rule length_str_nat)
  have "py_int ?s = Inr (- int ?n)"
    unfolding py_int_def s Let_def using g l by (simp add: dec_value_str_nat)
  with True show ?thesis by (simp add: str_int_def)
qed

lemma int_each_str_int:
  "\<forall>i \<in> set ids. nat \<bar>i\<bar> < 10 ^ int_max_str_digits \<Longrightarrow> int_each (map str_int ids) = Inr ids"
  by (induction ids) (simp_all add: py_int_str_int)

subsection \<open>Splitting at commas\<close>

lemma split_comma_no_comma: "CHR '','' \<notin> set x \<Longrightarrow> split_comma x = [x]"
  by (induction x) auto

lemma split_comma_append:
  "CHR '','' \<notin> set x \<Longrightarrow> split_comma (x @ CHR '','' # s) = x # split_comma s"
  by (induction x) auto

lemma split_comma_join_comma:
  "xs \<noteq> [] \<Longrightarrow> \<forall>x \<in> set xs. CHR '','' \<notin> set x \<Longrightarrow> split_comma (join_comma xs) = xs"
  by (induction xs rule: join_comma.induct) (simp_all add: split_comma_no_comma split_comma_append)

lemma str_int_chars: "c \<in> set (str_int i) \<Longrightarrow> is_digit c \<or> c = CHR ''-''"
  using str_nat_digits by (auto simp: str_int_def split: if_splits)

lemma str_int_nonempty: "str_int i \<noteq> []"
  by (simp add: str_int_def str_nat_nonempty)

lemma join_comma_chars:
  "c \<in> set (join_comma (map str_int ids)) \<Longrightarrow> is_digit c \<or> c = CHR ''-'' \<or> c = CHR '',''"
  by (induction ids rule: induct_list012) (auto dest: str_int_chars)

lemma join_comma_nonempty: "ids \<noteq> [] \<Longrightarrow> join_comma (map str_int ids) \<noteq> []"
  by (induction ids rule: induct_list012) (simp_all add: str_int_nonempty)

lemma str_int_no_comma: "CHR '','' \<notin> set (str_int i)"
  using str_int_chars [of "CHR '',''" i] by (auto simp: is_digit_def)

lemma join_comma_no_quote:
  "dq \<notin> set (join_comma (map str_int ids))" "newline \<notin> set (join_comma (map str_int ids))"
  using join_comma_chars [of dq ids] join_comma_chars [of newline ids]
  by (auto simp: is_digit_def dq_def newline_def)

subsection \<open>Where the search matches\<close>

lemma strip_prefix_append: "strip_prefix p (p @ s) = Some s"
  by (induction p) simp_all

lemma not_space_eq_dq: "\<not> re_space (CHR ''='')" "\<not> re_space dq"
  by (simp_all add: re_space_def dq_def)

lemma dropWhile_spaces:
  "\<forall>c \<in> set ws. re_space c \<Longrightarrow> \<not> re_space x \<Longrightarrow> dropWhile re_space (ws @ x # r) = x # r"
  by (induction ws) simp_all

lemma lazy_until_quote_value:
  "dq \<notin> set v \<Longrightarrow> newline \<notin> set v \<Longrightarrow> lazy_until_quote acc (v @ dq # post) = Some (acc @ v)"
  by (induction v arbitrary: acc) auto

lemma group1_value:
  assumes "v \<noteq> []" and "dq \<notin> set v" and "newline \<notin> set v"
  shows "group1 (v @ dq # post) = Some v"
proof -
  from assms(1) obtain c cs where v: "v = c # cs" by (cases v) auto
  with assms(2,3) have "lazy_until_quote [c] (cs @ dq # post) = Some ([c] @ cs)"
    by (intro lazy_until_quote_value) simp_all
  with v assms(3) show ?thesis by (auto simp: group1_def)
qed

lemma match_at_attribute:
  assumes "\<forall>c \<in> set ws1. re_space c" and "\<forall>c \<in> set ws2. re_space c"
    and "v \<noteq> []" and "dq \<notin> set v" and "newline \<notin> set v"
  shows "match_at (''Languages'' @ ws1 @ CHR ''='' # ws2 @ dq # v @ dq # post) = Some v"
proof -
  have a: "strip_prefix ''Languages'' (''Languages'' @ ws1 @ CHR ''='' # ws2 @ dq # v @ dq # post)
             = Some (ws1 @ CHR ''='' # ws2 @ dq # v @ dq # post)"
    by (rule strip_prefix_append)
  have b: "dropWhile re_space (ws1 @ CHR ''='' # ws2 @ dq # v @ dq # post)
             = CHR ''='' # ws2 @ dq # v @ dq # post"
    using assms(1) not_space_eq_dq(1) by (rule dropWhile_spaces)
  have c: "dropWhile re_space (ws2 @ dq # v @ dq # post) = dq # v @ dq # post"
    using assms(2) not_space_eq_dq(2) by (rule dropWhile_spaces)
  have g: "group1 (v @ dq # post) = Some v"
    using assms(3,4,5) by (rule group1_value)
  show ?thesis
    by (simp only: match_at_def a b c g option.case list.case simp_thms if_False)
qed

lemma re_search_here: "match_at s = Some v \<Longrightarrow> re_search_Languages s = Some v"
  by (cases s) simp_all

lemma re_search_skip:
  "\<forall>k < length pre. match_at (drop k (pre @ s)) = None
     \<Longrightarrow> re_search_Languages (pre @ s) = re_search_Languages s"
proof (induction pre)
  case Nil
  then show ?case by simp
next
  case (Cons c pre)
  from Cons.prems have h: "match_at (c # pre @ s) = None" by force
  have "\<forall>k < length pre. match_at (drop k (pre @ s)) = None"
  proof (intro allI impI)
    fix k assume "k < length pre"
    then have "Suc k < length (c # pre)" by simp
    with Cons.prems have "match_at (drop (Suc k) ((c # pre) @ s)) = None" by blast
    then show "match_at (drop k (pre @ s)) = None" by simp
  qed
  with Cons.IH h show ?case by simp
qed

lemma no_L_no_match:
  "CHR ''L'' \<notin> set pre \<Longrightarrow> \<forall>k < length pre. match_at (drop k (pre @ s)) = None"
proof (intro allI impI)
  fix k assume a: "CHR ''L'' \<notin> set pre" and k: "k < length pre"
  then obtain c r where d: "drop k pre = c # r" by (cases "drop k pre") auto
  then have "c \<in> set pre" by (metis in_set_dropD list.set_intros(1))
  with a have "c \<noteq> CHR ''L''" by auto
  moreover have "drop k (pre @ s) = c # r @ s" using d k by simp
  ultimately show "match_at (drop k (pre @ s)) = None" by (simp add: match_at_def)
qed

lemma small_locale_id: "n < 10 ^ 4 \<Longrightarrow> n < 10 ^ int_max_str_digits" for n :: nat
proof -
  have "(10::nat) ^ 4 \<le> 10 ^ int_max_str_digits"
    by (rule power_increasing) (simp_all add: int_max_str_digits_def)
  then show "n < 10 ^ 4 \<Longrightarrow> n < 10 ^ int_max_str_digits" by simp
qed

text \<open>
  C7. The value of the attribute is split at commas only, and each piece goes through
  \<^verbatim>\<open>int\<close>. Take a descriptor in which the pattern matches at no position before an
  attribute \<^verbatim>\<open>Languages\<close>, written with any whitespace around the equals sign, whose
  value is a non-empty list of integers in decimal (as \<^verbatim>\<open>str\<close> prints them, each below
  the digit limit of \<^verbatim>\<open>int\<close>) with commas between them. Then the list of locale IDs
  parsed is exactly that list of integers. A semicolon is not a separator: a value such as
  \<^verbatim>\<open>1033;1031\<close> is one piece, which \<^verbatim>\<open>int\<close> refuses with \<^verbatim>\<open>ValueError\<close>.
\<close>

theorem lcids_comma_separated:
  assumes "ids \<noteq> []"
    and "\<forall>i \<in> set ids. nat \<bar>i\<bar> < 10 ^ int_max_str_digits"
    and "\<forall>c \<in> set ws1. re_space c" and "\<forall>c \<in> set ws2. re_space c"
    and "\<forall>k < length pre. match_at (drop k (pre @ ''Languages'' @ ws1 @ CHR ''='' # ws2 @ dq
                                    # join_comma (map str_int ids) @ dq # post)) = None"
  shows "lcids_of (pre @ ''Languages'' @ ws1 @ CHR ''='' # ws2 @ dq
                   # join_comma (map str_int ids) @ dq # post) = Inr ids"
proof -
  let ?v = "join_comma (map str_int ids)"
  let ?attr = "''Languages'' @ ws1 @ CHR ''='' # ws2 @ dq # ?v @ dq # post"
  have v: "?v \<noteq> []" using assms(1) by (rule join_comma_nonempty)
  have m: "match_at ?attr = Some ?v"
    using assms(3,4) v join_comma_no_quote by (rule match_at_attribute)
  have "re_search_Languages (pre @ ?attr) = re_search_Languages ?attr"
    using assms(5) by (rule re_search_skip)
  also have "\<dots> = Some ?v" using m by (rule re_search_here)
  finally have r: "re_search_Languages (pre @ ?attr) = Some ?v" .
  have s: "split_comma ?v = map str_int ids"
    by (rule split_comma_join_comma) (simp_all add: assms(1) str_int_no_comma)
  have i: "int_each (map str_int ids) = Inr ids"
    using assms(2) by (rule int_each_str_int)
  show ?thesis
    unfolding lcids_of_def r by (simp add: s i)
qed

theorem lcids_comma_separated_witness:
  "lcids_of (descriptor ''1033,1031,1036'') = Inr [1033, 1031, 1036]"
proof -
  let ?pre = "''<Package Compressed='' @ [dq] @ ''yes'' @ [dq] @ '' ''"
  let ?ids = "[1033, 1031, 1036 :: int]"
  have a: "?ids \<noteq> []" by simp
  have x: "(1033::nat) < 10 ^ int_max_str_digits" by (rule small_locale_id) simp
  have y: "(1031::nat) < 10 ^ int_max_str_digits" by (rule small_locale_id) simp
  have z: "(1036::nat) < 10 ^ int_max_str_digits" by (rule small_locale_id) simp
  have n: "nat \<bar>1033\<bar> = 1033" "nat \<bar>1031\<bar> = 1031" "nat \<bar>1036\<bar> = 1036"
    by simp_all
  have b: "\<forall>i \<in> set ?ids. nat \<bar>i\<bar> < 10 ^ int_max_str_digits"
    by (simp only: list.set ball_simps n x y z simp_thms)
  have c: "\<forall>c \<in> set ([] :: string). re_space c" by simp
  have l: "CHR ''L'' \<notin> set ?pre" by (simp add: dq_def)
  have j: "join_comma (map str_int ?ids) = ''1033,1031,1036''" by code_simp
  have d: "descriptor ''1033,1031,1036'' =
             ?pre @ ''Languages'' @ [] @ CHR ''='' # [] @ dq # join_comma (map str_int ?ids) @ dq # '' />''"
    unfolding j by (simp add: descriptor_def)
  show ?thesis
    unfolding d
    by (rule lcids_comma_separated [OF a b c c no_L_no_match [OF l]])
qed

theorem lcids_semicolon_counterexample:
  "lcids_of (descriptor ''1033;1031'') = Inl (ValueError ''1033;1031'')"
  by code_simp

end
